theory Spec2Isabelle
  imports Complex_Main "HOL-Library.Word"
begin

section \<open>Data model of db/query.go\<close>

text \<open>
  A Go \<open>int\<close> is a 64-bit two's-complement integer; \<open>sint\<close> reads its sign and
  multiplication wraps around.
\<close>

type_synonym go_int = "64 word"

text \<open>
  A \<open>float64\<close>.  Only \<open>==\<close> and \<open><\<close> are applied to floats in this file, so a
  float is its numeric value, an infinity or NaN; both comparisons are false as soon as one
  operand is NaN.
\<close>

datatype float64 = Finite real | PosInf | NegInf | NaN

fun float_eq :: "float64 \<Rightarrow> float64 \<Rightarrow> bool" where
  "float_eq (Finite x) (Finite y) = (x = y)"
| "float_eq PosInf PosInf = True"
| "float_eq NegInf NegInf = True"
| "float_eq _ _ = False"

fun float_lt :: "float64 \<Rightarrow> float64 \<Rightarrow> bool" where
  "float_lt (Finite x) (Finite y) = (x < y)"
| "float_lt (Finite x) PosInf = True"
| "float_lt NegInf (Finite y) = True"
| "float_lt NegInf PosInf = True"
| "float_lt _ _ = False"

text \<open>
  The dynamic values stored in a record (\<open>interface{}\<close> as produced by decoding JSON):
  the nil interface, a bool, a float64, a string, a slice, or a nested
  \<open>map[string]interface{}\<close>.  A map is an association list read with \<open>map_of\<close>.
\<close>

datatype jval =
    JNull
  | JBool bool
  | JFloat float64
  | JString string
  | JArray "jval list"
  | JMap "(string \<times> jval) list"

type_synonym jrecord = "(string \<times> jval) list"

text \<open>\<open>type Value struct\<close>: three pointers, \<open>None\<close> is the nil pointer.\<close>

record Value =
  String :: "string option"
  Bool :: "bool option"
  Float :: "float64 option"

text \<open>
  \<open>type Operation int\<close> with its six named constants; any other integer is
  \<open>OtherOperation\<close>.  The constants are pairwise different, since they label the cases of
  one \<open>switch\<close>.
\<close>

datatype Operation = Eq | Ne | Gt | Lt | Ge | Le | OtherOperation int

text \<open>
  \<open>type Criterion struct\<close>.  The unexported back pointer \<open>query\<close> only routes the builder
  calls; it is carried by \<open>PendingCriterion\<close> below and is not part of an evaluated
  criterion.
\<close>

record Criterion =
  FieldPath :: string
  Operation :: Operation
  Value :: Value

text \<open>\<open>type Sort struct\<close>.\<close>

record Sort =
  SortFieldPath :: string
  Desc :: bool

text \<open>
  \<open>type Query struct\<close>.  \<open>Ands\<close> and \<open>Ors\<close> are slices of pointers, so an entry may be
  nil (\<open>None\<close>).
\<close>

datatype Query =
  Query (Ands: "Criterion option list") (Ors: "Query option list") (Sort: Sort) (Index: string)

text \<open>
  The errors of this file: the two \<open>fmt.Errorf\<close> messages with the values they format,
  \<open>errTypeMismatch\<close> with its two fields, the package variable
  \<open>ErrInvalidSortingField\<close>, and \<open>ErrOther\<close> for an error made outside this file
  (by the datastore or by \<open>compare\<close>).
\<close>

datatype error =
    ErrFieldNotExist string jrecord
  | ErrTypeMismatch jval Value
  | ErrInvalidSortingField
  | ErrBuildingQuery error
  | ErrOther string

text \<open>
  How a call ends: it returns, it panics, or it reaches \<open>log.Fatalf\<close>.
\<close>

datatype 'a exec = Returned 'a | Panicked string | Fatal string

section \<open>Library functions used by the file\<close>

text \<open>
  \<open>strings.Split(s, sep)\<close> for a one-byte separator: the substrings between the separators,
  always at least one (\<open>Split("", ".")\<close> is \<open>[""]\<close>).
\<close>

fun strings_Split :: "string \<Rightarrow> char \<Rightarrow> string list" where
  "strings_Split [] sep = [[]]"
| "strings_Split (c # cs) sep =
     (if c = sep then [] # strings_Split cs sep
      else (case strings_Split cs sep of
              [] \<Rightarrow> [[c]]
            | w # ws \<Rightarrow> (c # w) # ws))"

text \<open>\<open>strings.Compare\<close>: bytewise lexicographic comparison, giving -1, 0 or 1.\<close>

fun strings_Compare :: "string \<Rightarrow> string \<Rightarrow> go_int" where
  "strings_Compare [] [] = 0"
| "strings_Compare [] (b # bs) = -1"
| "strings_Compare (a # as) [] = 1"
| "strings_Compare (a # as) (b # bs) =
     (if (of_char a :: nat) < of_char b then -1
      else if (of_char b :: nat) < of_char a then 1
      else strings_Compare as bs)"

text \<open>
  \<open>reflect.Value\<close>: \<open>reflect.ValueOf(nil)\<close> is the zero Value, on which \<open>Interface()\<close>
  panics; on any other Value \<open>Interface()\<close> gives back the wrapped value.
\<close>

datatype reflect_Value = ZeroValue | ValueOf jval

fun reflect_ValueOf :: "jval \<Rightarrow> reflect_Value" where
  "reflect_ValueOf JNull = ZeroValue"
| "reflect_ValueOf v = ValueOf v"

fun Interface :: "reflect_Value \<Rightarrow> jval exec" where
  "Interface ZeroValue = Panicked ''reflect: call of reflect.Value.Interface on zero Value''"
| "Interface (ValueOf v) = Returned v"

section \<open>Field path traversal\<close>

text \<open>
  The loop of \<open>traverseFieldPathMap\<close> over the remaining segments; \<open>value\<close> and
  \<open>fieldPath\<close> are kept for the error message.
\<close>

fun traverseLoop :: "jrecord \<Rightarrow> string \<Rightarrow> jval \<Rightarrow> string list \<Rightarrow> reflect_Value \<times> error option" where
  "traverseLoop value fieldPath cur [] = (reflect_ValueOf cur, None)"
| "traverseLoop value fieldPath cur (f # rest) =
     (case cur of
        JMap m \<Rightarrow>
          (case map_of m f of
             None \<Rightarrow> (ZeroValue, Some (ErrFieldNotExist fieldPath value))
           | Some v \<Rightarrow> traverseLoop value fieldPath v rest)
      | _ \<Rightarrow> (ZeroValue, Some (ErrFieldNotExist fieldPath value)))"

definition traverseFieldPathMap :: "jrecord \<Rightarrow> string \<Rightarrow> reflect_Value \<times> error option" where
  "traverseFieldPathMap value fieldPath =
     traverseLoop value fieldPath (JMap value) (strings_Split fieldPath (CHR ''.''))"

section \<open>Matching\<close>

text \<open>
  \<open>compareValue\<close>.  The String pointer is tested first, then Bool, then Float; with no
  pointer set the call reaches \<open>log.Fatalf\<close>.

  Modelled from the spec: \<open>log\<close> is a package variable declared outside this file; the
  spec (sections 3 and 7) makes a criterion with no variant set fatal in the evaluator, so
  \<open>log.Fatalf\<close> does not return and the call ends as \<open>Fatal\<close>.
\<close>

definition compareValue :: "jval \<Rightarrow> Value \<Rightarrow> (go_int \<times> error option) exec" where
  "compareValue value critVal =
     (case String critVal of
        Some cs \<Rightarrow>
          (case value of
             JString s \<Rightarrow> Returned (strings_Compare s cs, None)
           | _ \<Rightarrow> Returned (0, Some (ErrTypeMismatch value critVal)))
      | None \<Rightarrow>
     (case Bool critVal of
        Some cb \<Rightarrow>
          (case value of
             JBool b \<Rightarrow> if cb = b then Returned (0, None) else Returned (-1, None)
           | _ \<Rightarrow> Returned (0, Some (ErrTypeMismatch value critVal)))
      | None \<Rightarrow>
     (case Float critVal of
        Some cf \<Rightarrow>
          (case value of
             JFloat f \<Rightarrow>
               if float_eq f cf then Returned (0, None)
               else if float_lt f cf then Returned (-1, None)
               else Returned (1, None)
           | _ \<Rightarrow> Returned (0, Some (ErrTypeMismatch value critVal)))
      | None \<Rightarrow> Fatal ''no underlying value for criterion was provided'')))"

text \<open>\<open>(*Criterion).match\<close>.\<close>

definition Criterion_match :: "Criterion \<Rightarrow> reflect_Value \<Rightarrow> (bool \<times> error option) exec" where
  "Criterion_match c value =
     (case Interface value of
        Panicked m \<Rightarrow> Panicked m
      | Fatal m \<Rightarrow> Fatal m
      | Returned valueInterface \<Rightarrow>
     (case compareValue valueInterface (Value c) of
        Panicked m \<Rightarrow> Panicked m
      | Fatal m \<Rightarrow> Fatal m
      | Returned (result, Some err) \<Rightarrow> Returned (False, Some err)
      | Returned (result, None) \<Rightarrow>
     (case Operation c of
        Eq \<Rightarrow> Returned (result = 0, None)
      | Ne \<Rightarrow> Returned (result \<noteq> 0, None)
      | Gt \<Rightarrow> Returned (sint result > 0, None)
      | Lt \<Rightarrow> Returned (sint result < 0, None)
      | Le \<Rightarrow> Returned (sint result < 0 \<or> result = 0, None)
      | Ge \<Rightarrow> Returned (sint result > 0 \<or> result = 0, None)
      | OtherOperation n \<Rightarrow> Panicked ''invalid operation'')))"

text \<open>
  The first loop of \<open>(*Query).match\<close>, over the remaining criteria, with the current
  \<open>andOk\<close>.  \<open>Inl (ok, err)\<close> is a \<open>return ok, err\<close> from inside the loop, \<open>Inr andOk\<close>
  is the loop left by its end or by \<open>break\<close>.  Reading \<open>c.FieldPath\<close> through a nil
  pointer is a run-time panic.
\<close>

fun andLoop :: "bool \<Rightarrow> Criterion option list \<Rightarrow> jrecord \<Rightarrow> ((bool \<times> error option) + bool) exec" where
  "andLoop andOk [] v = Returned (Inr andOk)"
| "andLoop andOk (None # cs) v =
     Panicked ''invalid memory address or nil pointer dereference''"
| "andLoop andOk (Some c # cs) v =
     (case traverseFieldPathMap v (FieldPath c) of
        (fieldRes, Some err) \<Rightarrow> Returned (Inl (False, Some err))
      | (fieldRes, None) \<Rightarrow>
     (case Criterion_match c fieldRes of
        Panicked m \<Rightarrow> Panicked m
      | Fatal m \<Rightarrow> Fatal m
      | Returned (ok, Some err) \<Rightarrow> Returned (Inl (False, Some err))
      | Returned (ok, None) \<Rightarrow>
          (let andOk' = (andOk \<and> ok)
           in if \<not> andOk' then Returned (Inr andOk') else andLoop andOk' cs v)))"

text \<open>
  \<open>(*Query).match\<close> on a query pointer, and its second loop \<open>orLoop\<close> over the remaining
  alternatives.
\<close>

function match :: "Query option \<Rightarrow> jrecord \<Rightarrow> (bool \<times> error option) exec"
  and orLoop :: "Query option list \<Rightarrow> jrecord \<Rightarrow> (bool \<times> error option) exec" where
  "match None v = Panicked ''query can't be nil''"
| "match (Some (Query ands ors srt idx)) v =
     (case andLoop True ands v of
        Panicked m \<Rightarrow> Panicked m
      | Fatal m \<Rightarrow> Fatal m
      | Returned (Inl r) \<Rightarrow> Returned r
      | Returned (Inr andOk) \<Rightarrow>
          if andOk then Returned (True, None) else orLoop ors v)"
| "orLoop [] v = Returned (False, None)"
| "orLoop (q # qs) v =
     (case match q v of
        Panicked m \<Rightarrow> Panicked m
      | Fatal m \<Rightarrow> Fatal m
      | Returned (ok, Some err) \<Rightarrow> Returned (False, Some err)
      | Returned (ok, None) \<Rightarrow>
          if ok then Returned (True, None) else orLoop qs v)"
  by pat_completeness auto

termination
  by (relation "measure (\<lambda>x. case x of
          Inl (q, v) \<Rightarrow> size_option size q
        | Inr (qs, v) \<Rightarrow> size_list (size_option size) qs)") auto

section \<open>Query builder\<close>

text \<open>
  The operand of a criterion operator call, an \<open>interface{}\<close>: the six dynamic types that
  \<open>createValue\<close> accepts (a pointer may be nil), and \<open>OtherOperand\<close> for a value of
  any other dynamic type.
\<close>

datatype operand =
    StringOperand string
  | BoolOperand bool
  | FloatOperand float64
  | StringPtrOperand "string option"
  | BoolPtrOperand "bool option"
  | FloatPtrOperand "float64 option"
  | OtherOperand

definition createValue :: "operand \<Rightarrow> Value" where
  "createValue value =
     (case value of
        StringOperand s \<Rightarrow> \<lparr>String = Some s, Bool = None, Float = None\<rparr>
      | BoolOperand b \<Rightarrow> \<lparr>String = None, Bool = Some b, Float = None\<rparr>
      | FloatOperand f \<Rightarrow> \<lparr>String = None, Bool = None, Float = Some f\<rparr>
      | StringPtrOperand sp \<Rightarrow> \<lparr>String = sp, Bool = None, Float = None\<rparr>
      | BoolPtrOperand bp \<Rightarrow> \<lparr>String = None, Bool = bp, Float = None\<rparr>
      | FloatPtrOperand fp \<Rightarrow> \<lparr>String = None, Bool = None, Float = fp\<rparr>
      | OtherOperand \<Rightarrow> \<lparr>String = None, Bool = None, Float = None\<rparr>)"

text \<open>
  A criterion between \<open>Where\<close>/\<open>And\<close> and its operator call: the field path and the
  back pointer \<open>query\<close> (nil after \<open>Where\<close>).  The builder mutates the query behind
  the pointer; here the query is passed and returned by value.
\<close>

record PendingCriterion =
  PendingFieldPath :: string
  query :: "Query option"

definition emptyQuery :: Query where
  "emptyQuery = Query [] [] \<lparr>SortFieldPath = [], Desc = False\<rparr> []"

definition Where :: "string \<Rightarrow> PendingCriterion" where
  "Where field = \<lparr>PendingFieldPath = field, query = None\<rparr>"

definition OrderBy :: "string \<Rightarrow> Query" where
  "OrderBy field = Query [] [] \<lparr>SortFieldPath = field, Desc = False\<rparr> []"

definition OrderByDesc :: "string \<Rightarrow> Query" where
  "OrderByDesc field = Query [] [] \<lparr>SortFieldPath = field, Desc = True\<rparr> []"

definition And :: "Query \<Rightarrow> string \<Rightarrow> PendingCriterion" where
  "And q field = \<lparr>PendingFieldPath = field, query = Some q\<rparr>"

definition UseIndex :: "Query \<Rightarrow> string \<Rightarrow> Query" where
  "UseIndex q path = Query (Ands q) (Ors q) (Sort q) path"

definition Or :: "Query \<Rightarrow> Query option \<Rightarrow> Query" where
  "Or q orQuery = Query (Ands q) (Ors q @ [orQuery]) (Sort q) (Index q)"

definition Query_OrderBy :: "Query \<Rightarrow> string \<Rightarrow> Query" where
  "Query_OrderBy q field =
     Query (Ands q) (Ors q) \<lparr>SortFieldPath = field, Desc = False\<rparr> (Index q)"

definition Query_OrderByDesc :: "Query \<Rightarrow> string \<Rightarrow> Query" where
  "Query_OrderByDesc q field =
     Query (Ands q) (Ors q) \<lparr>SortFieldPath = field, Desc = True\<rparr> (Index q)"

definition createcriterion :: "PendingCriterion \<Rightarrow> Operation \<Rightarrow> operand \<Rightarrow> Query" where
  "createcriterion c op value =
     (let crit = \<lparr>FieldPath = PendingFieldPath c, Operation = op, Value = createValue value\<rparr>;
          q = (case query c of None \<Rightarrow> emptyQuery | Some q \<Rightarrow> q)
      in Query (Ands q @ [Some crit]) (Ors q) (Sort q) (Index q))"

definition Criterion_Eq :: "PendingCriterion \<Rightarrow> operand \<Rightarrow> Query" where
  "Criterion_Eq c value = createcriterion c Eq value"

definition Criterion_Ne :: "PendingCriterion \<Rightarrow> operand \<Rightarrow> Query" where
  "Criterion_Ne c value = createcriterion c Ne value"

definition Criterion_Gt :: "PendingCriterion \<Rightarrow> operand \<Rightarrow> Query" where
  "Criterion_Gt c value = createcriterion c Gt value"

definition Criterion_Lt :: "PendingCriterion \<Rightarrow> operand \<Rightarrow> Query" where
  "Criterion_Lt c value = createcriterion c Lt value"

definition Criterion_Ge :: "PendingCriterion \<Rightarrow> operand \<Rightarrow> Query" where
  "Criterion_Ge c value = createcriterion c Ge value"

definition Criterion_Le :: "PendingCriterion \<Rightarrow> operand \<Rightarrow> Query" where
  "Criterion_Le c value = createcriterion c Le value"

section \<open>Find\<close>

text \<open>
  \<open>MarshaledResult\<close> is declared outside this file; \<open>Find\<close> reads its two fields
  \<open>MarshaledValue\<close> (the decoded record) and \<open>Value\<close> (the raw payload, here
  \<open>ResultValue\<close>).
\<close>

record MarshaledResult =
  ResultValue :: "8 word list"
  MarshaledValue :: jrecord

text \<open>
  The variables that the closure handed to \<open>sort.Slice\<close> captures: the slice
  \<open>values\<close> being sorted (here \<open>vals\<close>) and the two flags.
\<close>

record sort_state =
  vals :: "MarshaledResult list"
  wrongField :: bool
  cantCompare :: bool

text \<open>
  \<open>compare\<close> is declared outside this file and is a parameter of the model: a function
  from two dynamic values to an \<open>(int, error)\<close> pair.
\<close>

type_synonym compare_fn = "jval \<Rightarrow> jval \<Rightarrow> go_int \<times> error option"

text \<open>
  The closure \<open>func(i, j int) bool\<close> of \<open>Find\<close>.  Indexing the slice out of range
  is a run-time panic.
\<close>

definition less_fn :: "compare_fn \<Rightarrow> Sort \<Rightarrow> nat \<Rightarrow> nat \<Rightarrow> sort_state \<Rightarrow> (bool \<times> sort_state) exec" where
  "less_fn compare srt i j st =
     (if \<not> i < length (vals st) then Panicked ''index out of range''
      else
     (case traverseFieldPathMap (MarshaledValue (vals st ! i)) (SortFieldPath srt) of
        (fieldI, Some err) \<Rightarrow> Returned (False, st\<lparr>wrongField := True\<rparr>)
      | (fieldI, None) \<Rightarrow>
     (if \<not> j < length (vals st) then Panicked ''index out of range''
      else
     (case traverseFieldPathMap (MarshaledValue (vals st ! j)) (SortFieldPath srt) of
        (fieldJ, Some err) \<Rightarrow> Returned (False, st\<lparr>wrongField := True\<rparr>)
      | (fieldJ, None) \<Rightarrow>
     (case Interface fieldI of
        Panicked m \<Rightarrow> Panicked m
      | Fatal m \<Rightarrow> Fatal m
      | Returned a \<Rightarrow>
     (case Interface fieldJ of
        Panicked m \<Rightarrow> Panicked m
      | Fatal m \<Rightarrow> Fatal m
      | Returned b \<Rightarrow>
     (case compare a b of
        (res, Some err) \<Rightarrow> Returned (False, st\<lparr>cantCompare := True\<rparr>)
      | (res, None) \<Rightarrow>
          (let res' = (if Desc srt then res * (-1) else res)
           in Returned (sint res' < 0, st)))))))))"

text \<open>The swap function that \<open>sort.Slice\<close> builds for the slice.\<close>

definition swap_fn :: "nat \<Rightarrow> nat \<Rightarrow> sort_state \<Rightarrow> sort_state" where
  "swap_fn i j st = st\<lparr>vals := (vals st)[i := vals st ! j, j := vals st ! i]\<rparr>"

text \<open>
  \<open>sort.Slice\<close> is library code.  On a slice of at most 12 elements it runs
  \<open>insertionSort_func(data, 0, length)\<close>, with \<open>data.Less\<close> the closure and
  \<open>data.Swap\<close> the swap function of the slice:

  \<^verbatim>\<open>for i := a + 1; i < b; i++ { for j := i; j > a && data.Less(j, j-1); j-- { data.Swap(j, j-1) } }\<close>

  The model runs this loop for every length.  \<open>insertLoop\<close> is the inner loop with
  \<open>a = 0\<close>, \<open>insertionSort\<close> the outer loop from \<open>i\<close> on.
\<close>

fun insertLoop :: "(nat \<Rightarrow> nat \<Rightarrow> 's \<Rightarrow> (bool \<times> 's) exec) \<Rightarrow> (nat \<Rightarrow> nat \<Rightarrow> 's \<Rightarrow> 's) \<Rightarrow> nat \<Rightarrow> 's \<Rightarrow> 's exec" where
  "insertLoop lessf swapf 0 st = Returned st"
| "insertLoop lessf swapf (Suc j) st =
     (case lessf (Suc j) j st of
        Panicked m \<Rightarrow> Panicked m
      | Fatal m \<Rightarrow> Fatal m
      | Returned (lt, st') \<Rightarrow>
          if lt then insertLoop lessf swapf j (swapf (Suc j) j st') else Returned st')"

function insertionSort :: "(nat \<Rightarrow> nat \<Rightarrow> 's \<Rightarrow> (bool \<times> 's) exec) \<Rightarrow> (nat \<Rightarrow> nat \<Rightarrow> 's \<Rightarrow> 's) \<Rightarrow> nat \<Rightarrow> nat \<Rightarrow> 's \<Rightarrow> 's exec" where
  "insertionSort lessf swapf i b st =
     (if i < b then
        (case insertLoop lessf swapf i st of
           Panicked m \<Rightarrow> Panicked m
         | Fatal m \<Rightarrow> Fatal m
         | Returned st' \<Rightarrow> insertionSort lessf swapf (Suc i) b st')
      else Returned st)"
  by pat_completeness auto

termination
  by (relation "measure (\<lambda>(lessf, swapf, i, b, st). b - i)") auto

declare insertionSort.simps [simp del]

definition sort_Slice :: "nat \<Rightarrow> (nat \<Rightarrow> nat \<Rightarrow> 's \<Rightarrow> (bool \<times> 's) exec) \<Rightarrow> (nat \<Rightarrow> nat \<Rightarrow> 's \<Rightarrow> 's) \<Rightarrow> 's \<Rightarrow> 's exec" where
  "sort_Slice n lessf swapf st = insertionSort lessf swapf 1 n st"

text \<open>
  The receiver of \<open>Find\<close> as far as \<open>Find\<close> uses it: the error (if any) that
  \<open>NewTransaction(true)\<close> returns, and for each query the results that the iterator
  built by \<open>newIterator\<close> yields through \<open>NextSync\<close> until it is exhausted.  Both are
  declared outside this file.
\<close>

record Txn =
  NewTransaction :: "error option"
  newIterator :: "Query \<Rightarrow> MarshaledResult list"

text \<open>
  \<open>(*Txn).Find\<close>.  The result slice is \<open>None\<close> when the code returns \<open>nil\<close> for it.
\<close>

definition Find :: "compare_fn \<Rightarrow> Txn \<Rightarrow> Query option \<Rightarrow> (8 word list list option \<times> error option) exec" where
  "Find compare t q0 =
     (let q = (case q0 of None \<Rightarrow> emptyQuery | Some q \<Rightarrow> q)
      in case NewTransaction t of
           Some err \<Rightarrow> Returned (None, Some (ErrBuildingQuery err))
         | None \<Rightarrow>
     (let accumulated = newIterator t q
      in if SortFieldPath (Sort q) \<noteq> [] then
           (case sort_Slice (length accumulated) (less_fn compare (Sort q)) swap_fn
                   \<lparr>vals = accumulated, wrongField = False, cantCompare = False\<rparr> of
              Panicked m \<Rightarrow> Panicked m
            | Fatal m \<Rightarrow> Fatal m
            | Returned st \<Rightarrow>
                if wrongField st then Returned (None, Some ErrInvalidSortingField)
                else if cantCompare st then Panicked ''can't compare while sorting''
                else Returned (Some (map ResultValue (vals st)), None))
         else Returned (Some (map ResultValue accumulated), None)))"

text \<open>
  Modelled from the spec: \<open>compare\<close> is declared outside this file.  Section 4.4 of the
  spec describes it as an untyped three-way comparison over the three value domains of
  section 4.2 (string, boolean, float), with an error when the two values cannot be
  compared (type mismatch or an unsupported runtime type).
\<close>

definition compare_spec :: compare_fn where
  "compare_spec a b =
     (case (a, b) of
        (JString s, JString t) \<Rightarrow> (strings_Compare s t, None)
      | (JBool x, JBool y) \<Rightarrow> (if x = y then 0 else -1, None)
      | (JFloat f, JFloat g) \<Rightarrow>
          (if float_eq f g then 0 else if float_lt f g then -1 else 1, None)
      | _ \<Rightarrow> (0, Some (ErrOther ''cannot compare'')))"

section \<open>Notions used in the statements\<close>

text \<open>
  Field path resolution as the specification words it: starting from the root mapping,
  each segment requires the current node to be a mapping that contains the segment as a key,
  and descends to that key's value.
\<close>

definition descend :: "jval option \<Rightarrow> string \<Rightarrow> jval option" where
  "descend cur seg = (case cur of Some (JMap m) \<Rightarrow> map_of m seg | _ \<Rightarrow> None)"

definition resolve_spec :: "jrecord \<Rightarrow> string list \<Rightarrow> jval option" where
  "resolve_spec rootMap segs = foldl descend (Some (JMap rootMap)) segs"

text \<open>\<open>strings.Join\<close> with a one-byte separator, the inverse of splitting.\<close>

fun strings_Join :: "string list \<Rightarrow> char \<Rightarrow> string" where
  "strings_Join [] sep = []"
| "strings_Join [w] sep = w"
| "strings_Join (w # ws) sep = w @ sep # strings_Join ws sep"

text \<open>
  What one criterion of an AND-group yields on a record when the loop of \<open>match\<close> reaches
  it: the traversal of its field path followed by \<open>(*Criterion).match\<close>.
\<close>

definition criterion_outcome :: "Criterion option \<Rightarrow> jrecord \<Rightarrow> (bool \<times> error option) exec" where
  "criterion_outcome c v =
     (case c of
        None \<Rightarrow> Panicked ''invalid memory address or nil pointer dereference''
      | Some c \<Rightarrow>
          (case traverseFieldPathMap v (FieldPath c) of
             (fieldRes, Some err) \<Rightarrow> Returned (False, Some err)
           | (fieldRes, None) \<Rightarrow> Criterion_match c fieldRes))"

text \<open>
  The domain of a criterion value: the runtime type asked for by the first pointer that is
  set, in the order in which \<open>compareValue\<close> tests them.
\<close>

definition in_domain :: "jval \<Rightarrow> Value \<Rightarrow> bool" where
  "in_domain value critVal =
     (case String critVal of
        Some cs \<Rightarrow> (case value of JString s \<Rightarrow> True | _ \<Rightarrow> False)
      | None \<Rightarrow>
     (case Bool critVal of
        Some cb \<Rightarrow> (case value of JBool b \<Rightarrow> True | _ \<Rightarrow> False)
      | None \<Rightarrow>
     (case Float critVal of
        Some cf \<Rightarrow> (case value of JFloat f \<Rightarrow> True | _ \<Rightarrow> False)
      | None \<Rightarrow> False)))"

text \<open>Example queries, built with the builder, and a criterion \<open>f == x\<close> on a float.\<close>

definition ex_crit :: "string \<Rightarrow> real \<Rightarrow> Criterion option" where
  "ex_crit f x = Some \<lparr>FieldPath = f, Operation = Eq,
                    Value = \<lparr>String = None, Bool = None, Float = Some (Finite x)\<rparr>\<rparr>"

definition ex_query_or :: Query where
  "ex_query_or =
     Or (Or (Criterion_Eq (Where ''a'') (FloatOperand (Finite 1)))
            (Some (Criterion_Eq (Where ''b'') (FloatOperand (Finite 2)))))
        (Some (Criterion_Eq (Where ''c'') (FloatOperand (Finite 3))))"

definition ex_query_and :: Query where
  "ex_query_and =
     Criterion_Eq (And (Criterion_Eq (Where ''a'') (FloatOperand (Finite 1))) ''b'')
       (FloatOperand (Finite 2))"






text \<open>
  The sort as a function on lists.  \<open>insl lt x ys\<close> inserts \<open>x\<close> into the prefix already
  handled, held in reverse (\<open>ys\<close> starts with the element just left of \<open>x\<close>), as the inner
  loop does with comparison \<open>lt\<close>; \<open>isortl\<close> inserts the remaining elements one after the
  other.  \<open>insl_fails\<close> and \<open>isortl_fails\<close> tell whether a comparison made on the way
  fails (\<open>fl\<close>).
\<close>

fun insl :: "('a \<Rightarrow> 'a \<Rightarrow> bool) \<Rightarrow> 'a \<Rightarrow> 'a list \<Rightarrow> 'a list" where
  "insl lt x [] = [x]"
| "insl lt x (y # ys) = (if lt x y then y # insl lt x ys else x # y # ys)"


fun isortl :: "('a \<Rightarrow> 'a \<Rightarrow> bool) \<Rightarrow> 'a list \<Rightarrow> 'a list \<Rightarrow> 'a list" where
  "isortl lt ys [] = ys"
| "isortl lt ys (x # xs) = isortl lt (insl lt x ys) xs"






text \<open>Example results and a transaction whose iterator yields them for every query.\<close>

definition ex_result :: "8 word \<Rightarrow> jval \<Rightarrow> MarshaledResult" where
  "ex_result b v = \<lparr>ResultValue = [b], MarshaledValue = [(''age'', v)]\<rparr>"

definition ex_txn :: "MarshaledResult list \<Rightarrow> Txn" where
  "ex_txn vs = \<lparr>NewTransaction = None, newIterator = (\<lambda>q. vs)\<rparr>"

section \<open>Field path traversal: properties\<close>

lemma strings_Split_not_Nil: "strings_Split s sep \<noteq> []"
  by (induction s) (auto split: list.splits)

lemma strings_Split_no_sep: "w \<in> set (strings_Split s sep) \<Longrightarrow> sep \<notin> set w"
  by (induction s arbitrary: w) (auto split: list.splits if_splits)

lemma strings_Join_Cons: "ws \<noteq> [] \<Longrightarrow> strings_Join (w # ws) sep = w @ sep # strings_Join ws sep"
  by (cases ws) auto

lemma strings_Join_Split: "strings_Join (strings_Split s sep) sep = s"
proof (induction s)
  case Nil
  show ?case by simp
next
  case (Cons c cs)
  show ?case
  proof (cases "c = sep")
    case True
    then show ?thesis using Cons by (simp add: strings_Join_Cons strings_Split_not_Nil)
  next
    case False
    obtain w ws where sp: "strings_Split cs sep = w # ws"
      using strings_Split_not_Nil [of cs sep] by (cases "strings_Split cs sep") auto
    show ?thesis
    proof (cases ws)
      case Nil
      then show ?thesis using Cons False sp by simp
    next
      case (Cons w' ws')
      then show ?thesis using Cons.IH False sp by simp
    qed
  qed
qed

lemma descend_simps:
  "descend None seg = None"
  "descend (Some (JMap m)) seg = map_of m seg"
  "descend (Some JNull) seg = None"
  "descend (Some (JBool b)) seg = None"
  "descend (Some (JFloat f)) seg = None"
  "descend (Some (JString s)) seg = None"
  "descend (Some (JArray xs)) seg = None"
  by (simp_all add: descend_def)

lemma foldl_descend_None: "foldl descend None segs = None"
  by (induction segs) (simp_all add: descend_simps)

lemma traverseLoop_resolve:
  "traverseLoop value fieldPath cur segs =
     (case foldl descend (Some cur) segs of
        Some x \<Rightarrow> (reflect_ValueOf x, None)
      | None \<Rightarrow> (ZeroValue, Some (ErrFieldNotExist fieldPath value)))"
proof (induction segs arbitrary: cur)
  case Nil
  show ?case by simp
next
  case (Cons f rest)
  show ?case
  proof (cases cur)
    case (JMap m)
    then show ?thesis using Cons
      by (cases "map_of m f") (simp_all add: descend_simps foldl_descend_None)
  qed (simp_all add: descend_simps foldl_descend_None)
qed

text \<open>
  C8.  \<open>traverseFieldPathMap\<close> splits the path on \<open>.\<close> (the segments contain no dot and
  joined by dots give back the path), and resolves the segments from the root mapping as
  \<open>resolve_spec\<close> says: when every segment resolves, the result is the last resolved
  value and no error; when any segment fails, for either reason and at any depth, the result
  is the one error that carries the whole path and the record.
\<close>

theorem traverseFieldPathMap_spec:
  "strings_Split fieldPath (CHR ''.'') \<noteq> []
   \<and> (\<forall>seg \<in> set (strings_Split fieldPath (CHR ''.'')). CHR ''.'' \<notin> set seg)
   \<and> strings_Join (strings_Split fieldPath (CHR ''.'')) (CHR ''.'') = fieldPath
   \<and> traverseFieldPathMap value fieldPath =
       (case resolve_spec value (strings_Split fieldPath (CHR ''.'')) of
          Some x \<Rightarrow> (reflect_ValueOf x, None)
        | None \<Rightarrow> (ZeroValue, Some (ErrFieldNotExist fieldPath value)))"
  by (simp add: strings_Split_not_Nil strings_Split_no_sep strings_Join_Split
      traverseFieldPathMap_def resolve_spec_def traverseLoop_resolve)

theorem traverseFieldPathMap_spec_witness:
  "strings_Split ''a.b'' (CHR ''.'') = [''a'', ''b'']
   \<and> CHR ''.'' \<notin> set ''a'' \<and> CHR ''.'' \<notin> set ''b''
   \<and> strings_Join [''a'', ''b''] (CHR ''.'') = ''a.b''
   \<and> traverseFieldPathMap [(''a'', JMap [(''b'', JBool True)])] ''a.b'' = (ValueOf (JBool True), None)
   \<and> traverseFieldPathMap [(''a'', JBool True)] ''a.b''
        = (ZeroValue, Some (ErrFieldNotExist ''a.b'' [(''a'', JBool True)]))
   \<and> traverseFieldPathMap [(''a'', JMap [(''c'', JBool True)])] ''a.b''
        = (ZeroValue, Some (ErrFieldNotExist ''a.b'' [(''a'', JMap [(''c'', JBool True)])]))"
  using traverseFieldPathMap_spec [of "''a.b''" "[(''a'', JMap [(''b'', JBool True)])]"]
    traverseFieldPathMap_spec [of "''a.b''" "[(''a'', JBool True)]"]
    traverseFieldPathMap_spec [of "''a.b''" "[(''a'', JMap [(''c'', JBool True)])]"]
  by (simp add: resolve_spec_def descend_simps)

section \<open>Matching: properties\<close>

text \<open>
  C1, as the code has it.  A query that is not nil and has no criterion and no alternative
  matches every record, whatever its sort and index fields; on a nil query \<open>match\<close> panics
  (\<open>Find\<close> replaces a nil query by the empty one before it matches).
\<close>

theorem match_empty_query:
  "match (Some (Query [] [] srt idx)) R = Returned (True, None)
   \<and> match None R = Panicked ''query can't be nil''"
  by simp

text \<open>C1 as stated fails on the nil query: \<open>match\<close> does not return true there.\<close>

theorem match_nil_query_counterexample:
  "match None [] \<noteq> Returned (True, None)"
  by simp

text \<open>
  C7.  For a criterion whose value is the boolean variant, compared with a runtime boolean,
  \<open>compareValue\<close> gives 0 when the two are equal and -1, a negative number, when they
  differ, whichever of the two is true; so \<open>Eq\<close> holds exactly when they are equal and
  \<open>Ne\<close> exactly when they differ.
\<close>

theorem compareValue_bool:
  assumes "String cv = None" and "Bool cv = Some c"
  shows "compareValue (JBool b) cv = Returned (if c = b then 0 else -1, None)
         \<and> sint (-1 :: go_int) < 0
         \<and> Criterion_match \<lparr>FieldPath = p, Operation = Eq, Value = cv\<rparr> (reflect_ValueOf (JBool b))
             = Returned (b = c, None)
         \<and> Criterion_match \<lparr>FieldPath = p, Operation = Ne, Value = cv\<rparr> (reflect_ValueOf (JBool b))
             = Returned (b \<noteq> c, None)"
  using assms by (auto simp: compareValue_def Criterion_match_def)

theorem compareValue_bool_witness:
  "compareValue (JBool True) (createValue (BoolOperand False)) = Returned (-1, None)
   \<and> compareValue (JBool False) (createValue (BoolOperand True)) = Returned (-1, None)
   \<and> compareValue (JBool True) (createValue (BoolOperand True)) = Returned (0, None)
   \<and> Criterion_match \<lparr>FieldPath = ''active'', Operation = Eq, Value = createValue (BoolOperand True)\<rparr>
        (reflect_ValueOf (JBool False)) = Returned (False, None)
   \<and> Criterion_match \<lparr>FieldPath = ''active'', Operation = Ne, Value = createValue (BoolOperand True)\<rparr>
        (reflect_ValueOf (JBool False)) = Returned (True, None)"
  using compareValue_bool [of "createValue (BoolOperand False)" False True "''active''"]
    compareValue_bool [of "createValue (BoolOperand True)" True False "''active''"]
    compareValue_bool [of "createValue (BoolOperand True)" True True "''active''"]
  by (simp add: createValue_def)

text \<open>
  C10.  A nil pointer of an accepted operand type gives the value with no variant set, the
  same value a disallowed operand type gives; \<open>compareValue\<close> against it reaches
  \<open>log.Fatalf\<close> for every runtime value, and so does \<open>match\<close> of a query built from it
  with any operator, on a record in which the field resolves to a value.
\<close>

theorem createValue_nil_pointer:
  assumes "operand \<in> {StringPtrOperand None, BoolPtrOperand None, FloatPtrOperand None}"
  shows "createValue operand = \<lparr>String = None, Bool = None, Float = None\<rparr>
       \<and> createValue operand = createValue OtherOperand
       \<and> compareValue value (createValue operand)
            = Fatal ''no underlying value for criterion was provided''
       \<and> (traverseFieldPathMap v field = (ValueOf x, None) \<longrightarrow>
            match (Some (createcriterion (Where field) op operand)) v
              = Fatal ''no underlying value for criterion was provided'')"
  using assms
  by (auto simp: createValue_def compareValue_def createcriterion_def Where_def emptyQuery_def
      Criterion_match_def)

theorem createValue_nil_pointer_witness:
  "createValue (BoolPtrOperand None) = createValue OtherOperand
   \<and> traverseFieldPathMap [(''active'', JBool True)] ''active'' = (ValueOf (JBool True), None)
   \<and> match (Some (createcriterion (Where ''active'') Eq (BoolPtrOperand None))) [(''active'', JBool True)]
       = Fatal ''no underlying value for criterion was provided''"
proof -
  have t: "traverseFieldPathMap [(''active'', JBool True)] ''active'' = (ValueOf (JBool True), None)"
    by (simp add: traverseFieldPathMap_def)
  have h: "BoolPtrOperand None \<in> {StringPtrOperand None, BoolPtrOperand None, FloatPtrOperand None}"
    by simp
  show ?thesis
    using t createValue_nil_pointer [OF h, of "JBool True" "[(''active'', JBool True)]"
        "''active''" "JBool True" Eq]
    by blast
qed

text \<open>
  C4 at a field that holds the nil interface (a JSON \<open>null\<close>): the value is outside the
  boolean domain of the criterion, and \<open>match\<close> panics in \<open>Interface()\<close> instead of
  returning a type-mismatch error.
\<close>

theorem match_nil_field_panics:
  "match (Some (Criterion_Eq (Where ''active'') (BoolOperand True))) [(''active'', JNull)]
     = Panicked ''reflect: call of reflect.Value.Interface on zero Value''"
  by (simp add: Criterion_Eq_def createcriterion_def Where_def emptyQuery_def createValue_def
      traverseFieldPathMap_def Criterion_match_def)

text \<open>
  On every runtime value other than the nil interface, with one of the six operations and a
  criterion value that has a variant set, \<open>(*Criterion).match\<close> returns the type-mismatch
  error exactly when the value is outside the domain, and a result without error otherwise.
\<close>

lemma Criterion_match_non_nil:
  assumes "value \<noteq> JNull" and "Operation c \<in> {Eq, Ne, Gt, Lt, Ge, Le}"
    and "String (Value c) \<noteq> None \<or> Bool (Value c) \<noteq> None \<or> Float (Value c) \<noteq> None"
  shows "(\<not> in_domain value (Value c) \<longrightarrow>
            Criterion_match c (reflect_ValueOf value)
              = Returned (False, Some (ErrTypeMismatch value (Value c))))
       \<and> (in_domain value (Value c) \<longrightarrow>
            (\<exists>ok. Criterion_match c (reflect_ValueOf value) = Returned (ok, None)))"
  using assms
  by (cases "value"; cases "Operation c")
     (auto simp: Criterion_match_def compareValue_def in_domain_def split: option.splits)

lemma andLoop_Cons:
  "andLoop True (c # cs) v =
     (case criterion_outcome c v of
        Panicked m \<Rightarrow> Panicked m
      | Fatal m \<Rightarrow> Fatal m
      | Returned (ok, Some err) \<Rightarrow> Returned (Inl (False, Some err))
      | Returned (ok, None) \<Rightarrow> if ok then andLoop True cs v else Returned (Inr False))"
  by (cases c) (auto simp: criterion_outcome_def split: prod.splits option.splits exec.splits)

lemma andLoop_prefix_true:
  "\<forall>c \<in> set pre. criterion_outcome c v = Returned (True, None) \<Longrightarrow>
     andLoop True (pre @ rest) v = andLoop True rest v"
  by (induction pre) (simp_all add: andLoop_Cons)

lemma andLoop_all_true:
  "\<forall>c \<in> set cs. criterion_outcome c v = Returned (True, None) \<Longrightarrow>
     andLoop True cs v = Returned (Inr True)"
  using andLoop_prefix_true [of cs v "[]"] by simp

lemma traverse_error_form:
  "traverseFieldPathMap v p = (r, Some err) \<Longrightarrow> err = ErrFieldNotExist p v"
  by (simp add: traverseFieldPathMap_def traverseLoop_resolve split: option.splits)

lemma orLoop_prefix_false:
  "\<forall>q \<in> set pre. match q v = Returned (False, None) \<Longrightarrow> orLoop (pre @ rest) v = orLoop rest v"
  by (induction pre) simp_all

lemma orLoop_all_false:
  "\<forall>q \<in> set qs. match q v = Returned (False, None) \<Longrightarrow> orLoop qs v = Returned (False, None)"
  using orLoop_prefix_false [of qs v "[]"] by simp

text \<open>
  C2.  When every criterion of the AND-group holds, \<open>match\<close> returns true whatever the OR
  alternatives are.  When the AND-group fails (its criteria hold up to one that compares
  false), the alternatives are matched in order: if all alternatives before \<open>alt\<close> return
  false, then \<open>match\<close> returns true when \<open>alt\<close> matches and returns the error of
  \<open>alt\<close> when \<open>alt\<close> fails, whatever the later alternatives are; and when all
  alternatives return false (or there is none), \<open>match\<close> returns false and no error.
\<close>

theorem match_and_then_or:
  "((\<forall>c \<in> set ands. criterion_outcome c v = Returned (True, None)) \<longrightarrow>
      match (Some (Query ands ors srt idx)) v = Returned (True, None))
   \<and> ((\<exists>cpre c cpost. ands = cpre @ c # cpost
          \<and> (\<forall>p \<in> set cpre. criterion_outcome p v = Returned (True, None))
          \<and> criterion_outcome c v = Returned (False, None)) \<longrightarrow>
        (\<forall>pre alt post.
            ors = pre @ alt # post \<and> (\<forall>p \<in> set pre. match p v = Returned (False, None)) \<longrightarrow>
              (match alt v = Returned (True, None) \<longrightarrow>
                 match (Some (Query ands ors srt idx)) v = Returned (True, None))
            \<and> (\<forall>ok err. match alt v = Returned (ok, Some err) \<longrightarrow>
                 match (Some (Query ands ors srt idx)) v = Returned (False, Some err)))
        \<and> ((\<forall>p \<in> set ors. match p v = Returned (False, None)) \<longrightarrow>
              match (Some (Query ands ors srt idx)) v = Returned (False, None)))"
proof (intro conjI impI)
  assume "\<forall>c \<in> set ands. criterion_outcome c v = Returned (True, None)"
  then show "match (Some (Query ands ors srt idx)) v = Returned (True, None)"
    by (simp add: andLoop_all_true)
next
  assume "\<exists>cpre c cpost. ands = cpre @ c # cpost
          \<and> (\<forall>p \<in> set cpre. criterion_outcome p v = Returned (True, None))
          \<and> criterion_outcome c v = Returned (False, None)"
  then have a: "andLoop True ands v = Returned (Inr False)"
    by (auto simp: andLoop_prefix_true andLoop_Cons)
  then have m: "match (Some (Query ands ors srt idx)) v = orLoop ors v"
    by simp
  show "\<forall>pre alt post.
            ors = pre @ alt # post \<and> (\<forall>p \<in> set pre. match p v = Returned (False, None)) \<longrightarrow>
              (match alt v = Returned (True, None) \<longrightarrow>
                 match (Some (Query ands ors srt idx)) v = Returned (True, None))
            \<and> (\<forall>ok err. match alt v = Returned (ok, Some err) \<longrightarrow>
                 match (Some (Query ands ors srt idx)) v = Returned (False, Some err))"
    unfolding m by (auto simp: orLoop_prefix_false)
  show "match (Some (Query ands ors srt idx)) v = Returned (False, None)"
    if "\<forall>p \<in> set ors. match p v = Returned (False, None)"
    unfolding m using that by (rule orLoop_all_false)
qed

text \<open>
  C3.  When the criteria before \<open>c\<close> hold: if \<open>c\<close> compares false, a query with no OR
  alternative returns false and no error, whatever the later criteria \<open>post\<close> are (they
  may be missing in the record or of the wrong type); and if the traversal for \<open>c\<close> fails,
  \<open>match\<close> returns that field-not-found error at once, whatever the later criteria and the
  alternatives are.
\<close>

theorem match_and_short_circuit:
  "(\<forall>p \<in> set pre. criterion_outcome p v = Returned (True, None)) \<longrightarrow>
     (criterion_outcome c v = Returned (False, None) \<longrightarrow>
        match (Some (Query (pre @ c # post) [] srt idx)) v = Returned (False, None))
   \<and> (\<forall>c' fieldRes err.
         c = Some c' \<and> traverseFieldPathMap v (FieldPath c') = (fieldRes, Some err) \<longrightarrow>
           err = ErrFieldNotExist (FieldPath c') v
         \<and> match (Some (Query (pre @ c # post) ors srt idx)) v = Returned (False, Some err))"
proof (intro conjI impI allI)
  assume pre: "\<forall>p \<in> set pre. criterion_outcome p v = Returned (True, None)"
  show "match (Some (Query (pre @ c # post) [] srt idx)) v = Returned (False, None)"
    if "criterion_outcome c v = Returned (False, None)"
    using pre that by (simp add: andLoop_prefix_true andLoop_Cons)
  fix c' fieldRes err
  assume c: "c = Some c' \<and> traverseFieldPathMap v (FieldPath c') = (fieldRes, Some err)"
  then show "err = ErrFieldNotExist (FieldPath c') v"
    by (simp add: traverse_error_form)
  show "match (Some (Query (pre @ c # post) ors srt idx)) v = Returned (False, Some err)"
    using pre c by (simp add: andLoop_prefix_true)
qed

lemmas builder_defs = Or_def And_def Where_def Criterion_Eq_def createcriterion_def createValue_def
  emptyQuery_def

lemmas eval_defs = criterion_outcome_def traverseFieldPathMap_def Criterion_match_def
  compareValue_def

lemma ex_query_or_eq:
  "ex_query_or = Query [ex_crit ''a'' 1]
      [Some (Query [ex_crit ''b'' 2] [] \<lparr>SortFieldPath = [], Desc = False\<rparr> []),
       Some (Query [ex_crit ''c'' 3] [] \<lparr>SortFieldPath = [], Desc = False\<rparr> [])]
      \<lparr>SortFieldPath = [], Desc = False\<rparr> []"
  by (simp add: ex_query_or_def ex_crit_def builder_defs)

lemma ex_query_and_eq:
  "ex_query_and = Query ([ex_crit ''a'' 1] @ ex_crit ''b'' 2 # []) []
      \<lparr>SortFieldPath = [], Desc = False\<rparr> []"
  by (simp add: ex_query_and_def ex_crit_def builder_defs)

theorem match_and_then_or_witness:
  "match (Some ex_query_or) [(''a'', JFloat (Finite 1))] = Returned (True, None)
   \<and> match (Some ex_query_or) [(''a'', JFloat (Finite 0)), (''b'', JFloat (Finite 2))]
       = Returned (True, None)
   \<and> match (Some ex_query_or) [(''a'', JFloat (Finite 0)), (''b'', JFloat (Finite 0))]
       = Returned (False, Some (ErrFieldNotExist ''c''
            [(''a'', JFloat (Finite 0)), (''b'', JFloat (Finite 0))]))
   \<and> match (Some ex_query_or)
        [(''a'', JFloat (Finite 0)), (''b'', JFloat (Finite 0)), (''c'', JFloat (Finite 0))]
       = Returned (False, None)"
proof -
  let ?s = "\<lparr>SortFieldPath = [], Desc = False\<rparr>"
  let ?qb = "Some (Query [ex_crit ''b'' 2] [] ?s [])"
  let ?qc = "Some (Query [ex_crit ''c'' 3] [] ?s [])"
  let ?r1 = "[(''a'', JFloat (Finite 1))]"
  let ?r2 = "[(''a'', JFloat (Finite 0)), (''b'', JFloat (Finite 2))]"
  let ?r3 = "[(''a'', JFloat (Finite 0)), (''b'', JFloat (Finite 0))]"
  let ?r4 = "[(''a'', JFloat (Finite 0)), (''b'', JFloat (Finite 0)), (''c'', JFloat (Finite 0))]"
  note inst = match_and_then_or [of "[ex_crit ''a'' 1]" _ "[?qb, ?qc]" ?s "[]"]
  have a1: "\<forall>c \<in> set [ex_crit ''a'' 1]. criterion_outcome c ?r1 = Returned (True, None)"
    by (simp add: ex_crit_def eval_defs)
  have m1: "match (Some ex_query_or) ?r1 = Returned (True, None)"
    unfolding ex_query_or_eq using inst [of ?r1] a1 by blast
  have af: "\<exists>cpre c cpost. [ex_crit ''a'' 1] = cpre @ c # cpost
          \<and> (\<forall>p \<in> set cpre. criterion_outcome p r = Returned (True, None))
          \<and> criterion_outcome c r = Returned (False, None)"
    if "criterion_outcome (ex_crit ''a'' 1) r = Returned (False, None)" for r
    using that by (intro exI [of _ "[]"] exI [of _ "ex_crit ''a'' 1"]) simp
  have a2: "criterion_outcome (ex_crit ''a'' 1) ?r2 = Returned (False, None)"
    and a3: "criterion_outcome (ex_crit ''a'' 1) ?r3 = Returned (False, None)"
    and a4: "criterion_outcome (ex_crit ''a'' 1) ?r4 = Returned (False, None)"
    by (simp_all add: ex_crit_def eval_defs)
  have b2: "[?qb, ?qc] = [] @ ?qb # [?qc] \<and> (\<forall>p \<in> set []. match p ?r2 = Returned (False, None))"
    and b2': "match ?qb ?r2 = Returned (True, None)"
    by (simp_all add: ex_crit_def eval_defs)
  have m2: "match (Some ex_query_or) ?r2 = Returned (True, None)"
    unfolding ex_query_or_eq using inst [of ?r2] af [OF a2] b2 b2' by blast
  have b3: "[?qb, ?qc] = [?qb] @ ?qc # [] \<and> (\<forall>p \<in> set [?qb]. match p ?r3 = Returned (False, None))"
    and c3: "match ?qc ?r3 = Returned (False, Some (ErrFieldNotExist ''c'' ?r3))"
    by (simp_all add: ex_crit_def eval_defs)
  have m3: "match (Some ex_query_or) ?r3 = Returned (False, Some (ErrFieldNotExist ''c'' ?r3))"
    unfolding ex_query_or_eq using inst [of ?r3] af [OF a3] b3 c3 by blast
  have b4: "\<forall>p \<in> set [?qb, ?qc]. match p ?r4 = Returned (False, None)"
    by (simp add: ex_crit_def eval_defs)
  have m4: "match (Some ex_query_or) ?r4 = Returned (False, None)"
    unfolding ex_query_or_eq using inst [of ?r4] af [OF a4] b4 by blast
  show ?thesis using m1 m2 m3 m4 by simp
qed

theorem match_and_short_circuit_witness:
  "match (Some ex_query_and) [(''a'', JFloat (Finite 0))] = Returned (False, None)
   \<and> match (Some ex_query_and) [(''a'', JFloat (Finite 0)), (''b'', JBool True)] = Returned (False, None)
   \<and> match (Some ex_query_and) [(''a'', JFloat (Finite 1))]
       = Returned (False, Some (ErrFieldNotExist ''b'' [(''a'', JFloat (Finite 1))]))"
proof -
  let ?s = "\<lparr>SortFieldPath = [], Desc = False\<rparr>"
  let ?r1 = "[(''a'', JFloat (Finite 0))]"
  let ?r2 = "[(''a'', JFloat (Finite 0)), (''b'', JBool True)]"
  let ?r3 = "[(''a'', JFloat (Finite 1))]"
  let ?cb = "\<lparr>FieldPath = ''b'', Operation = Eq,
                    Value = \<lparr>String = None, Bool = None, Float = Some (Finite 2)\<rparr>\<rparr>"
  have e: "ex_query_and = Query ([] @ ex_crit ''a'' 1 # [ex_crit ''b'' 2]) [] ?s []"
    by (simp add: ex_query_and_eq)
  have p0: "\<forall>p \<in> set []. criterion_outcome p r = Returned (True, None)" for r
    by simp
  have a1: "criterion_outcome (ex_crit ''a'' 1) ?r1 = Returned (False, None)"
    and a2: "criterion_outcome (ex_crit ''a'' 1) ?r2 = Returned (False, None)"
    by (simp_all add: ex_crit_def eval_defs)
  have m1: "match (Some ex_query_and) ?r1 = Returned (False, None)"
    unfolding e
    using match_and_short_circuit [of "[]" ?r1 "ex_crit ''a'' 1" "[ex_crit ''b'' 2]" ?s "[]" "[]"]
      p0 a1 by blast
  have m2: "match (Some ex_query_and) ?r2 = Returned (False, None)"
    unfolding e
    using match_and_short_circuit [of "[]" ?r2 "ex_crit ''a'' 1" "[ex_crit ''b'' 2]" ?s "[]" "[]"]
      p0 a2 by blast
  have p3: "\<forall>p \<in> set [ex_crit ''a'' 1]. criterion_outcome p ?r3 = Returned (True, None)"
    by (simp add: ex_crit_def eval_defs)
  have t3: "ex_crit ''b'' 2 = Some ?cb
      \<and> traverseFieldPathMap ?r3 (FieldPath ?cb) = (ZeroValue, Some (ErrFieldNotExist ''b'' ?r3))"
    by (simp add: ex_crit_def traverseFieldPathMap_def)
  have m3: "match (Some ex_query_and) ?r3 = Returned (False, Some (ErrFieldNotExist ''b'' ?r3))"
    unfolding ex_query_and_eq
    using match_and_short_circuit [of "[ex_crit ''a'' 1]" ?r3 "ex_crit ''b'' 2" "[]" ?s "[]" "[]"]
      p3 t3 by blast
  show ?thesis using m1 m2 m3 by simp
qed

section \<open>Sorting in Find: properties\<close>

lemma set_insl [simp]: "set (insl lt x ys) = insert x (set ys)"
  by (induction ys) auto

lemma length_insl [simp]: "length (insl lt x ys) = Suc (length ys)"
  by (induction ys) auto






subsection \<open>Insertion into a list kept in descending order\<close>


lemma distinct_insl [simp]: "distinct (insl lt x ys) = (x \<notin> set ys \<and> distinct ys)"
  by (induction ys) auto

lemma set_isortl [simp]: "set (isortl lt ys xs) = set ys \<union> set xs"
  by (induction xs arbitrary: ys) auto















lemmas sort_eval_defs = Find_def sort_Slice_def insertionSort.simps less_fn_def swap_fn_def
  traverseFieldPathMap_def compare_spec_def ex_result_def ex_txn_def OrderBy_def OrderByDesc_def

text \<open>
  C5 on a single accumulated record that lacks the sort field: \<open>sort.Slice\<close> never calls
  the closure, no traversal failure is recorded, and \<open>Find\<close> returns the record's payload
  and no error, whatever \<open>compare\<close> is.
\<close>

theorem Find_single_record_no_error:
  "Find cmp (ex_txn [\<lparr>ResultValue = [1], MarshaledValue = [(''name'', JString ''a'')]\<rparr>])
      (Some (OrderBy ''age''))
     = Returned (Some [[1]], None)
   \<and> traverseFieldPathMap [(''name'', JString ''a'')] ''age''
     = (ZeroValue, Some (ErrFieldNotExist ''age'' [(''name'', JString ''a'')]))"
  by (simp add: sort_eval_defs)



end
